theory Spec2Isabelle
  imports Complex_Main "HOL-Library.Word" "HOL-Library.Sublist"
begin

section \<open>The values of the language\<close>

subsection \<open>Strings\<close>

text \<open>
  A string of the source language is a finite sequence of 16-bit code units; \<open>length\<close>
  counts code units, and \<open>===\<close> on two strings compares the sequences. A literal of the
  source (all of them are ASCII) is written \<open>js ''...''\<close>.
\<close>

type_synonym jsstring = "16 word list"

definition js :: "string \<Rightarrow> jsstring" where
  "js s = map of_char s"

text \<open>
  \<open>String.prototype.trim\<close> removes the white space and line terminator code points of the
  language standard from both ends: TAB, LF, VT, FF, CR, SPACE, NBSP, U+1680,
  U+2000 to U+200A, U+2028, U+2029, U+202F, U+205F, U+3000 and U+FEFF.
\<close>

definition isWhiteSpace :: "16 word \<Rightarrow> bool" where
  "isWhiteSpace c \<longleftrightarrow>
     c \<in> {0x0009, 0x000A, 0x000B, 0x000C, 0x000D, 0x0020, 0x00A0, 0x1680,
          0x2028, 0x2029, 0x202F, 0x205F, 0x3000, 0xFEFF}
     \<or> (0x2000 \<le> c \<and> c \<le> 0x200A)"

definition js_trim :: "jsstring \<Rightarrow> jsstring" where
  "js_trim s = rev (dropWhile isWhiteSpace (rev (dropWhile isWhiteSpace s)))"

text \<open>\<open>s.includes(t)\<close>: \<open>t\<close> occurs in \<open>s\<close> as a contiguous run, searched from each position.\<close>

fun js_includes :: "jsstring \<Rightarrow> jsstring \<Rightarrow> bool" where
  "js_includes [] t = (t = [])"
| "js_includes (c # cs) t = (prefix t (c # cs) \<or> js_includes cs t)"

text \<open>\<open>s.startsWith(t)\<close>.\<close>

definition js_startsWith :: "jsstring \<Rightarrow> jsstring \<Rightarrow> bool" where
  "js_startsWith s t = prefix t s"

subsection \<open>Numbers\<close>

text \<open>
  A \<open>number\<close> of the source is a finite value, one of the two infinities, or NaN. The finite
  values are modelled by the reals (every finite double is one, and the comparisons below
  are exact on them). A comparison with NaN on either side is false.
\<close>

datatype number = Num real | PosInf | NegInf | NaN

fun num_lt :: "number \<Rightarrow> number \<Rightarrow> bool" where
  "num_lt NaN _ = False"
| "num_lt _ NaN = False"
| "num_lt (Num a) (Num b) = (a < b)"
| "num_lt (Num a) PosInf = True"
| "num_lt (Num a) NegInf = False"
| "num_lt PosInf _ = False"
| "num_lt NegInf NegInf = False"
| "num_lt NegInf _ = True"

definition num_le :: "number \<Rightarrow> number \<Rightarrow> bool" where
  "num_le a b \<longleftrightarrow> num_lt a b \<or> (a = b \<and> a \<noteq> NaN)"

definition num_gt :: "number \<Rightarrow> number \<Rightarrow> bool" where
  "num_gt a b = num_lt b a"

subsection \<open>Dates and object references\<close>

text \<open>
  A \<open>Date\<close> holds a time value in milliseconds, or is the invalid date (time value NaN),
  on which \<open>toISOString\<close> raises a \<open>RangeError\<close>.
\<close>

datatype Date = TimeValue int | InvalidDate

text \<open>
  An argument of object type may be absent at run time: it is \<open>undefined\<close>, \<open>null\<close>, or
  a reference to an object. Only the first two are falsy, that is, \<open>!x\<close> is true on them.
\<close>

datatype 'a js_ref = Undefined | Null | Obj 'a

fun falsy :: "'a js_ref \<Rightarrow> bool" where
  "falsy Undefined = True"
| "falsy Null = True"
| "falsy (Obj _) = False"

section \<open>Errors\<close>

text \<open>
  Each error class of \<open>domain/errors\<close> is a constructor carrying the public fields of the
  class; for the two classes whose only payload is the message, the message is the field.
  The last two are built in: \<open>RangeError\<close> is raised by \<open>Date.prototype.toISOString\<close> on
  the invalid date, \<open>TypeError\<close> by reading a property of \<open>undefined\<close> or \<open>null\<close>.
\<close>

datatype Error =
    FileSizeExceededError number number
  | InvalidFileTypeError jsstring "jsstring list"
  | InvalidFileNameError jsstring
  | InvalidFileLocationError jsstring
  | FileAlreadyUploadedError jsstring
  | FileAlreadyDeletedError jsstring
  | FileNotFoundError jsstring
  | RangeError
  | TypeError

section \<open>FileStatus\<close>

datatype FileStatus = PENDING | UPLOADED | DELETED

text \<open>The run-time value of a member of the string enum.\<close>

fun FileStatus_value :: "FileStatus \<Rightarrow> jsstring" where
  "FileStatus_value PENDING = js ''PENDING''"
| "FileStatus_value UPLOADED = js ''UPLOADED''"
| "FileStatus_value DELETED = js ''DELETED''"

section \<open>FileLocation\<close>

record FileLocation =
  container :: jsstring
  path :: jsstring

text \<open>
  \<open>!s\<close> on a string is true exactly for the empty string; the checks run in the order of
  the source and the first one that fires raises.
\<close>

definition FileLocation_validate :: "FileLocation \<Rightarrow> Error + unit" where
  "FileLocation_validate this =
     (if container this = [] \<or> length (js_trim (container this)) = 0
        then Inl (InvalidFileLocationError (js ''Container cannot be empty''))
      else if path this = [] \<or> length (js_trim (path this)) = 0
        then Inl (InvalidFileLocationError (js ''Path cannot be empty''))
      else if js_includes (path this) (js ''..'')
        then Inl (InvalidFileLocationError
                    (js ''Path cannot contain \"..\" (path traversal attempt)''))
      else if js_startsWith (path this) (js ''/'')
        then Inl (InvalidFileLocationError (js ''Path cannot start with \"/\"''))
      else Inr ())"

text \<open>The constructor: the fields are assigned, then \<open>validate\<close> runs.\<close>

definition FileLocation_new :: "jsstring \<Rightarrow> jsstring \<Rightarrow> Error + FileLocation" where
  "FileLocation_new c p =
     (let this = \<lparr>container = c, path = p\<rparr>
      in case FileLocation_validate this of Inl e \<Rightarrow> Inl e | Inr _ \<Rightarrow> Inr this)"

definition getFullPath :: "FileLocation \<Rightarrow> jsstring" where
  "getFullPath this = container this @ js ''/'' @ path this"

definition FileLocation_equals :: "FileLocation \<Rightarrow> FileLocation \<Rightarrow> bool" where
  "FileLocation_equals this other \<longleftrightarrow>
     container this = container other \<and> path this = path other"

section \<open>FileMetadata\<close>

record FileMetadata =
  fileName :: jsstring
  fileSize :: number
  mimeType :: jsstring
  ownerId :: jsstring
  uploadedAt :: Date

definition MAX_FILE_SIZE :: number where
  "MAX_FILE_SIZE = Num (10 * 1024 * 1024)"

definition ALLOWED_TYPES :: "jsstring list" where
  "ALLOWED_TYPES = [js ''image/jpeg'', js ''image/png'', js ''application/pdf'']"

definition validateFileSize :: "FileMetadata \<Rightarrow> Error + unit" where
  "validateFileSize this =
     (if num_le (fileSize this) (Num 0)
        then Inl (FileSizeExceededError (fileSize this) MAX_FILE_SIZE)
      else if num_gt (fileSize this) MAX_FILE_SIZE
        then Inl (FileSizeExceededError (fileSize this) MAX_FILE_SIZE)
      else Inr ())"

definition validateMimeType :: "FileMetadata \<Rightarrow> Error + unit" where
  "validateMimeType this =
     (if mimeType this \<notin> set ALLOWED_TYPES
        then Inl (InvalidFileTypeError (mimeType this) ALLOWED_TYPES)
      else Inr ())"

definition validateFileName :: "FileMetadata \<Rightarrow> Error + unit" where
  "validateFileName this =
     (if fileName this = [] \<or> length (js_trim (fileName this)) = 0
        then Inl (InvalidFileNameError (js ''File name cannot be empty''))
      else if length (fileName this) > 255
        then Inl (InvalidFileNameError (js ''File name is too long (max 255 characters)''))
      else if js_includes (fileName this) (js ''..'')
              \<or> js_includes (fileName this) (js ''/'')
              \<or> js_includes (fileName this) [0]
        then Inl (InvalidFileNameError
                    (js ''File name contains invalid characters (../, /, or null byte)''))
      else Inr ())"

text \<open>\<open>validate\<close> calls the three checks in turn; a raise in one skips the rest.\<close>

definition FileMetadata_validate :: "FileMetadata \<Rightarrow> Error + unit" where
  "FileMetadata_validate this =
     (case validateFileSize this of
        Inl e \<Rightarrow> Inl e
      | Inr _ \<Rightarrow>
         (case validateMimeType this of
            Inl e \<Rightarrow> Inl e
          | Inr _ \<Rightarrow> validateFileName this))"

text \<open>
  The constructor. Its last parameter defaults to the current time in the source; here the
  caller always passes the date.
\<close>

definition FileMetadata_new ::
  "jsstring \<Rightarrow> number \<Rightarrow> jsstring \<Rightarrow> jsstring \<Rightarrow> Date \<Rightarrow> Error + FileMetadata" where
  "FileMetadata_new name sz mime owner upAt =
     (let this = \<lparr>fileName = name, fileSize = sz, mimeType = mime,
                  ownerId = owner, uploadedAt = upAt\<rparr>
      in case FileMetadata_validate this of Inl e \<Rightarrow> Inl e | Inr _ \<Rightarrow> Inr this)"

section \<open>The File entity\<close>

text \<open>
  The field \<open>id\<close> of the source is \<open>file_id\<close> here (\<open>id\<close> is the identity function of HOL),
  and \<open>status\<close> is the private field \<open>_status\<close> behind its getter.
\<close>

record File =
  file_id :: jsstring
  metadata :: FileMetadata
  location :: FileLocation
  status :: FileStatus

text \<open>\<open>create\<close> takes the identifier that \<open>uuidv4()\<close> returned.\<close>

definition create :: "jsstring \<Rightarrow> FileMetadata \<Rightarrow> FileLocation \<Rightarrow> File" where
  "create uuid m l = \<lparr>file_id = uuid, metadata = m, location = l, status = PENDING\<rparr>"

definition reconstitute ::
  "jsstring \<Rightarrow> FileMetadata \<Rightarrow> FileLocation \<Rightarrow> FileStatus \<Rightarrow> File" where
  "reconstitute i m l s = \<lparr>file_id = i, metadata = m, location = l, status = s\<rparr>"

text \<open>
  A method that mutates the entity returns its outcome (the error raised, or \<open>()\<close>) together
  with the entity as the call leaves it.
\<close>

definition markAsUploaded :: "File \<Rightarrow> (Error + unit) \<times> File" where
  "markAsUploaded this =
     (if status this = UPLOADED then (Inl (FileAlreadyUploadedError (file_id this)), this)
      else if status this = DELETED then (Inl (FileAlreadyDeletedError (file_id this)), this)
      else (Inr (), this\<lparr>status := UPLOADED\<rparr>))"

definition markAsDeleted :: "File \<Rightarrow> (Error + unit) \<times> File" where
  "markAsDeleted this =
     (if status this = DELETED then (Inl (FileAlreadyDeletedError (file_id this)), this)
      else (Inr (), this\<lparr>status := DELETED\<rparr>))"

definition canBeDownloaded :: "File \<Rightarrow> bool" where
  "canBeDownloaded this \<longleftrightarrow> status this = UPLOADED"

definition belongsTo :: "File \<Rightarrow> jsstring \<Rightarrow> bool" where
  "belongsTo this owner \<longleftrightarrow> ownerId (metadata this) = owner"

text \<open>
  \<open>other.id\<close>: the id of the object referred to; on \<open>undefined\<close> and \<open>null\<close> the read
  raises.
\<close>

fun read_id :: "File js_ref \<Rightarrow> Error + jsstring" where
  "read_id (Obj other) = Inr (file_id other)"
| "read_id _ = Inl TypeError"

definition equals :: "File \<Rightarrow> File js_ref \<Rightarrow> Error + bool" where
  "equals this other =
     (if falsy other then Inr False
      else case read_id other of
             Inl e \<Rightarrow> Inl e
           | Inr i \<Rightarrow> Inr (file_id this = i))"

text \<open>
  The serialization view. \<open>toISOString\<close> is the built-in formatter of a valid date, taken as
  a parameter; on the invalid date it raises and no view is returned.
\<close>

record FileObject =
  obj_id :: jsstring
  obj_fileName :: jsstring
  obj_fileSize :: number
  obj_mimeType :: jsstring
  obj_ownerId :: jsstring
  obj_container :: jsstring
  obj_path :: jsstring
  obj_status :: jsstring
  obj_uploadedAt :: jsstring

definition toObject :: "(int \<Rightarrow> jsstring) \<Rightarrow> File \<Rightarrow> Error + FileObject" where
  "toObject toISOString this =
     (case uploadedAt (metadata this) of
        InvalidDate \<Rightarrow> Inl RangeError
      | TimeValue t \<Rightarrow>
          Inr \<lparr>obj_id = file_id this,
               obj_fileName = fileName (metadata this),
               obj_fileSize = fileSize (metadata this),
               obj_mimeType = mimeType (metadata this),
               obj_ownerId = ownerId (metadata this),
               obj_container = container (location this),
               obj_path = path (location this),
               obj_status = FileStatus_value (status this),
               obj_uploadedAt = toISOString t\<rparr>)"

section \<open>Sample values\<close>

text \<open>The metadata and location of the examples in the source's comments.\<close>

definition photo_metadata :: FileMetadata where
  "photo_metadata = \<lparr>fileName = js ''photo.jpg'', fileSize = Num 1024000,
     mimeType = js ''image/jpeg'', ownerId = js ''user-123'', uploadedAt = TimeValue 0\<rparr>"

definition photo_location :: FileLocation where
  "photo_location =
     \<lparr>container = js ''my-bucket'', path = js ''uploads/user-123/photo.jpg''\<rparr>"

text \<open>
  A stand-in for the built-in date formatter in the examples: it is right at time value 0,
  the only date the examples format.
\<close>

definition epoch_toISOString :: "int \<Rightarrow> jsstring" where
  "epoch_toISOString t = js ''1970-01-01T00:00:00.000Z''"

section \<open>Facts about the string operations\<close>

lemma js_includes_iff_sublist: "js_includes s t \<longleftrightarrow> sublist t s"
  by (induction s) (simp_all add: sublist_Cons_right)

lemma js_includes_unit_iff: "js_includes s [c] \<longleftrightarrow> c \<in> set s"
  by (induction s) auto

text \<open>A string trims to the empty string exactly when it has white space only.\<close>

lemma js_trim_Nil_iff: "js_trim s = [] \<longleftrightarrow> (\<forall>c\<in>set s. isWhiteSpace c)"
proof
  assume "js_trim s = []"
  then have all: "\<forall>c\<in>set (dropWhile isWhiteSpace s). isWhiteSpace c"
    by (simp add: js_trim_def)
  have "dropWhile isWhiteSpace s = []"
  proof (rule ccontr)
    assume ne: "dropWhile isWhiteSpace s \<noteq> []"
    then have "\<not> isWhiteSpace (hd (dropWhile isWhiteSpace s))"
      by (rule hd_dropWhile)
    moreover from ne have "hd (dropWhile isWhiteSpace s) \<in> set (dropWhile isWhiteSpace s)"
      by simp
    ultimately show False using all by blast
  qed
  then show "\<forall>c\<in>set s. isWhiteSpace c"
    by simp
next
  assume "\<forall>c\<in>set s. isWhiteSpace c"
  then show "js_trim s = []"
    by (auto simp: js_trim_def dest: set_dropWhileD)
qed

lemma blank_iff: "s = [] \<or> length (js_trim s) = 0 \<longleftrightarrow> js_trim s = []"
  by (auto simp: js_trim_def)

lemma js_slash: "js ''/'' = [0x2F]"
  by (simp add: js_def)

lemma FileStatus_value_inj: "FileStatus_value s = FileStatus_value t \<Longrightarrow> s = t"
  by (cases s; cases t) (simp_all add: js_def)

section \<open>The lifecycle of a File\<close>

text \<open>
  C1. The transitions of the entity are those of the state machine: \<open>markAsUploaded\<close>
  on a PENDING entity returns and sets the status to UPLOADED (and nothing else); on an
  UPLOADED entity it raises \<open>FileAlreadyUploadedError\<close> with the entity's id; on a
  DELETED entity it raises \<open>FileAlreadyDeletedError\<close> with the entity's id.
  \<open>markAsDeleted\<close> on a PENDING or UPLOADED entity returns and sets the status to
  DELETED (and nothing else); on a DELETED entity it raises \<open>FileAlreadyDeletedError\<close>
  with the entity's id. So a DELETED entity is DELETED after either call.
\<close>

theorem File_transitions:
  "(status f = PENDING \<longrightarrow> markAsUploaded f = (Inr (), f\<lparr>status := UPLOADED\<rparr>))
   \<and> (status f = UPLOADED \<longrightarrow>
      fst (markAsUploaded f) = Inl (FileAlreadyUploadedError (file_id f)))
   \<and> (status f = DELETED \<longrightarrow>
      fst (markAsUploaded f) = Inl (FileAlreadyDeletedError (file_id f)))
   \<and> (status f = PENDING \<or> status f = UPLOADED \<longrightarrow>
      markAsDeleted f = (Inr (), f\<lparr>status := DELETED\<rparr>))
   \<and> (status f = DELETED \<longrightarrow>
      fst (markAsDeleted f) = Inl (FileAlreadyDeletedError (file_id f)))
   \<and> (status f = DELETED \<longrightarrow>
      status (snd (markAsUploaded f)) = DELETED \<and> status (snd (markAsDeleted f)) = DELETED)"
  by (cases "status f") (simp_all add: markAsUploaded_def markAsDeleted_def)

text \<open>
  The scenario of the spec: a created entity is uploaded; an uploaded one refuses a second
  upload and accepts deletion; a deleted one refuses both calls and stays deleted.
\<close>

theorem File_transitions_witness:
  "status (create (js ''id-1'') photo_metadata photo_location) = PENDING
   \<and> fst (markAsUploaded (create (js ''id-1'') photo_metadata photo_location)) = Inr ()
   \<and> status (snd (markAsUploaded (create (js ''id-1'') photo_metadata photo_location)))
       = UPLOADED
   \<and> fst (markAsUploaded (reconstitute (js ''id-1'') photo_metadata photo_location UPLOADED))
       = Inl (FileAlreadyUploadedError (js ''id-1''))
   \<and> status (snd (markAsDeleted
         (reconstitute (js ''id-1'') photo_metadata photo_location UPLOADED)))
       = DELETED
   \<and> fst (markAsUploaded (reconstitute (js ''id-1'') photo_metadata photo_location DELETED))
       = Inl (FileAlreadyDeletedError (js ''id-1''))
   \<and> fst (markAsDeleted (reconstitute (js ''id-1'') photo_metadata photo_location DELETED))
       = Inl (FileAlreadyDeletedError (js ''id-1''))
   \<and> status (snd (markAsDeleted
         (reconstitute (js ''id-1'') photo_metadata photo_location DELETED)))
       = DELETED"
proof -
  let ?p = "create (js ''id-1'') photo_metadata photo_location"
  let ?u = "reconstitute (js ''id-1'') photo_metadata photo_location UPLOADED"
  let ?d = "reconstitute (js ''id-1'') photo_metadata photo_location DELETED"
  have p: "status ?p = PENDING" and u: "status ?u = UPLOADED" and d: "status ?d = DELETED"
    and i: "file_id ?u = js ''id-1''" "file_id ?d = js ''id-1''"
    by (simp_all add: create_def reconstitute_def)
  show ?thesis
    using File_transitions [of ?p] File_transitions [of ?u] File_transitions [of ?d] p u d i
    by simp
qed

text \<open>
  After either call the entity is not PENDING: no transition leads to PENDING, and so none
  leads back to it from UPLOADED.
\<close>

lemma no_transition_to_PENDING:
  "status (snd (markAsUploaded f)) \<noteq> PENDING \<and> status (snd (markAsDeleted f)) \<noteq> PENDING"
  by (cases "status f") (simp_all add: markAsUploaded_def markAsDeleted_def)

text \<open>
  C2. A transition that raises changes nothing: when \<open>markAsUploaded\<close> or
  \<open>markAsDeleted\<close> raises, the entity after the call is the entity before it (the same id,
  metadata, location and status).
\<close>

theorem transition_failure_atomic:
  "(fst (markAsUploaded f) = Inl e \<longrightarrow>
      snd (markAsUploaded f) = f \<and> status (snd (markAsUploaded f)) = status f)
   \<and> (fst (markAsDeleted f) = Inl e \<longrightarrow>
      snd (markAsDeleted f) = f \<and> status (snd (markAsDeleted f)) = status f)"
  by (simp add: markAsUploaded_def markAsDeleted_def)

theorem transition_failure_atomic_witness:
  "fst (markAsUploaded (reconstitute (js ''id-1'') photo_metadata photo_location UPLOADED))
     = Inl (FileAlreadyUploadedError (js ''id-1''))
   \<and> snd (markAsUploaded (reconstitute (js ''id-1'') photo_metadata photo_location UPLOADED))
     = reconstitute (js ''id-1'') photo_metadata photo_location UPLOADED
   \<and> fst (markAsDeleted (reconstitute (js ''id-1'') photo_metadata photo_location DELETED))
     = Inl (FileAlreadyDeletedError (js ''id-1''))
   \<and> snd (markAsDeleted (reconstitute (js ''id-1'') photo_metadata photo_location DELETED))
     = reconstitute (js ''id-1'') photo_metadata photo_location DELETED"
proof -
  let ?u = "reconstitute (js ''id-1'') photo_metadata photo_location UPLOADED"
  let ?d = "reconstitute (js ''id-1'') photo_metadata photo_location DELETED"
  have u: "fst (markAsUploaded ?u) = Inl (FileAlreadyUploadedError (js ''id-1''))"
    and d: "fst (markAsDeleted ?d) = Inl (FileAlreadyDeletedError (js ''id-1''))"
    by (simp_all add: markAsUploaded_def markAsDeleted_def reconstitute_def)
  show ?thesis
    using transition_failure_atomic [of ?u "FileAlreadyUploadedError (js ''id-1'')"]
      transition_failure_atomic [of ?d "FileAlreadyDeletedError (js ''id-1'')"] u d
    by simp
qed

section \<open>Equality of entities\<close>

text \<open>
  C8. \<open>a.equals(b)\<close> on two File instances is true exactly when their ids are equal,
  whatever their status, metadata (with its timestamp) and location.
\<close>

theorem equals_by_id: "equals a (Obj b) = Inr (file_id a = file_id b)"
  by (simp add: equals_def)

text \<open>
  Equal ids with a different status, timestamp and path; different ids with everything
  else equal.
\<close>

theorem equals_by_id_witness:
  "equals (create (js ''id-1'') photo_metadata photo_location)
     (Obj (reconstitute (js ''id-1'') (photo_metadata\<lparr>uploadedAt := TimeValue 86400000\<rparr>)
            (photo_location\<lparr>path := js ''other.jpg''\<rparr>) DELETED)) = Inr True
   \<and> equals (create (js ''id-1'') photo_metadata photo_location)
     (Obj (create (js ''id-2'') photo_metadata photo_location)) = Inr False"
  using equals_by_id [of "create (js ''id-1'') photo_metadata photo_location"
      "reconstitute (js ''id-1'') (photo_metadata\<lparr>uploadedAt := TimeValue 86400000\<rparr>)
            (photo_location\<lparr>path := js ''other.jpg''\<rparr>) DELETED"]
    equals_by_id [of "create (js ''id-1'') photo_metadata photo_location"
      "create (js ''id-2'') photo_metadata photo_location"]
  by (simp add: create_def reconstitute_def js_def)

text \<open>
  C9. \<open>f.equals\<close> called with an absent argument, \<open>undefined\<close> or \<open>null\<close>, returns false;
  the guard keeps it from reading the id of the argument, which would raise.
\<close>

theorem equals_absent: "equals f Undefined = Inr False \<and> equals f Null = Inr False"
  by (simp add: equals_def)

theorem equals_absent_witness:
  "equals (create (js ''id-1'') photo_metadata photo_location) Undefined = Inr False
   \<and> equals (create (js ''id-1'') photo_metadata photo_location) Null = Inr False"
  using equals_absent [of "create (js ''id-1'') photo_metadata photo_location"]
  by simp

section \<open>Construction of a FileMetadata\<close>

lemma num_le_Num [simp]: "num_le (Num a) (Num b) \<longleftrightarrow> a \<le> b"
  by (auto simp: num_le_def)

lemma num_gt_Num [simp]: "num_gt (Num a) (Num b) \<longleftrightarrow> b < a"
  by (simp add: num_gt_def)

text \<open>
  On every size but NaN, the two comparisons of \<open>validateFileSize\<close> are both false exactly
  when the size is in the range of the size rule.
\<close>

lemma size_check_passes_iff:
  assumes "sz \<noteq> NaN"
  shows "\<not> (num_le sz (Num 0) \<or> num_gt sz (Num 10485760))
           \<longleftrightarrow> num_lt (Num 0) sz \<and> num_le sz (Num 10485760)"
  using assms by (cases sz) (auto simp: num_le_def num_gt_def)

text \<open>
  The constructor as one chain of checks, in the order in which \<open>validate\<close> runs them,
  with the conditions in terms of the string itself.
\<close>

lemma FileMetadata_new_flat:
  "FileMetadata_new name sz mime owner upAt =
     (if num_le sz (Num 0) \<or> num_gt sz (Num 10485760)
        then Inl (FileSizeExceededError sz (Num 10485760))
      else if mime \<notin> {js ''image/jpeg'', js ''image/png'', js ''application/pdf''}
        then Inl (InvalidFileTypeError mime
                    [js ''image/jpeg'', js ''image/png'', js ''application/pdf''])
      else if js_trim name = []
        then Inl (InvalidFileNameError (js ''File name cannot be empty''))
      else if 255 < length name
        then Inl (InvalidFileNameError (js ''File name is too long (max 255 characters)''))
      else if sublist (js ''..'') name \<or> 0x2F \<in> set name \<or> 0 \<in> set name
        then Inl (InvalidFileNameError
                    (js ''File name contains invalid characters (../, /, or null byte)''))
      else Inr \<lparr>fileName = name, fileSize = sz, mimeType = mime,
                 ownerId = owner, uploadedAt = upAt\<rparr>)"
proof -
  have name: "fileName m = [] \<or> length (js_trim (fileName m)) = 0
      \<longleftrightarrow> js_trim (fileName m) = []" for m :: FileMetadata
    by (rule blank_iff)
  have mem: "mime \<in> set ALLOWED_TYPES
      \<longleftrightarrow> mime \<in> {js ''image/jpeg'', js ''image/png'', js ''application/pdf''}"
    by (auto simp: ALLOWED_TYPES_def)
  show ?thesis
    unfolding FileMetadata_new_def FileMetadata_validate_def validateFileSize_def
      validateMimeType_def validateFileName_def Let_def name mem
    by (simp add: MAX_FILE_SIZE_def ALLOWED_TYPES_def js_includes_iff_sublist
        js_includes_unit_iff [symmetric] js_slash)
qed

text \<open>
  C3. Whenever the size is at most 0 or greater than 10,485,760, construction raises
  \<open>FileSizeExceededError\<close> with that size and the limit 10,485,760, the same error class
  in both cases; whenever the size is greater than 0 and at most 10,485,760, construction
  raises no \<open>FileSizeExceededError\<close>. The comparisons are those of the language, so the
  statement covers the infinities and NaN (which satisfies neither condition).
\<close>

theorem FileMetadata_size_violation:
  "(num_le sz (Num 0) \<or> num_gt sz (Num 10485760) \<longrightarrow>
      FileMetadata_new name sz mime owner upAt
        = Inl (FileSizeExceededError sz (Num 10485760)))
   \<and> (num_lt (Num 0) sz \<and> num_le sz (Num 10485760) \<longrightarrow>
      (\<forall>a b. FileMetadata_new name sz mime owner upAt \<noteq> Inl (FileSizeExceededError a b)))"
proof (intro conjI impI)
  assume "num_le sz (Num 0) \<or> num_gt sz (Num 10485760)"
  then show "FileMetadata_new name sz mime owner upAt
        = Inl (FileSizeExceededError sz (Num 10485760))"
    by (simp add: FileMetadata_new_flat)
next
  assume ok: "num_lt (Num 0) sz \<and> num_le sz (Num 10485760)"
  then have "sz \<noteq> NaN" by auto
  from size_check_passes_iff [OF this] ok
  have "\<not> (num_le sz (Num 0) \<or> num_gt sz (Num 10485760))" by blast
  then show "\<forall>a b. FileMetadata_new name sz mime owner upAt \<noteq> Inl (FileSizeExceededError a b)"
    by (simp add: FileMetadata_new_flat)
qed

text \<open>
  Sizes 0, -1, 10,485,761 and infinity raise the size error, also with a wrong type; sizes
  10,485,760 and 1 raise no size error, also with a wrong type and name.
\<close>

theorem FileMetadata_size_violation_witness:
  "FileMetadata_new (js ''photo.jpg'') (Num 0) (js ''image/jpeg'') (js ''user-123'')
       (TimeValue 0)
     = Inl (FileSizeExceededError (Num 0) (Num 10485760))
   \<and> FileMetadata_new (js ''photo.jpg'') (Num (- 1)) (js ''text/plain'') (js ''user-123'')
       (TimeValue 0)
     = Inl (FileSizeExceededError (Num (- 1)) (Num 10485760))
   \<and> FileMetadata_new (js ''photo.jpg'') (Num 10485761) (js ''image/jpeg'') (js ''user-123'')
       (TimeValue 0)
     = Inl (FileSizeExceededError (Num 10485761) (Num 10485760))
   \<and> FileMetadata_new (js ''photo.jpg'') PosInf (js ''image/jpeg'') (js ''user-123'')
       (TimeValue 0)
     = Inl (FileSizeExceededError PosInf (Num 10485760))
   \<and> (\<forall>a b. FileMetadata_new (js ''photo.jpg'') (Num 10485760) (js ''image/jpeg'')
          (js ''user-123'') (TimeValue 0)
     \<noteq> Inl (FileSizeExceededError a b))
   \<and> (\<forall>a b. FileMetadata_new (js ''../x'') (Num 1) (js ''text/plain'')
          (js ''user-123'') (TimeValue 0)
     \<noteq> Inl (FileSizeExceededError a b))"
  using
    FileMetadata_size_violation [of "Num 0" "js ''photo.jpg''" "js ''image/jpeg''"
      "js ''user-123''" "TimeValue 0"]
    FileMetadata_size_violation [of "Num (- 1)" "js ''photo.jpg''" "js ''text/plain''"
      "js ''user-123''" "TimeValue 0"]
    FileMetadata_size_violation [of "Num 10485761" "js ''photo.jpg''" "js ''image/jpeg''"
      "js ''user-123''" "TimeValue 0"]
    FileMetadata_size_violation [of PosInf "js ''photo.jpg''" "js ''image/jpeg''"
      "js ''user-123''" "TimeValue 0"]
    FileMetadata_size_violation [of "Num 10485760" "js ''photo.jpg''" "js ''image/jpeg''"
      "js ''user-123''" "TimeValue 0"]
    FileMetadata_size_violation [of "Num 1" "js ''../x''" "js ''text/plain''"
      "js ''user-123''" "TimeValue 0"]
  by (simp add: num_le_def num_gt_def)

subsection \<open>The type rule\<close>

text \<open>
  On every size but NaN, construction raises \<open>InvalidFileTypeError\<close> exactly when the size
  is greater than 0 and at most 10,485,760 and the type is outside the allow-list, and the
  error carries the type and the allow-list.
\<close>

lemma type_violation_iff:
  assumes "sz \<noteq> NaN"
  shows "(\<exists>m ts. FileMetadata_new name sz mime owner upAt = Inl (InvalidFileTypeError m ts))
     \<longleftrightarrow> (num_lt (Num 0) sz \<and> num_le sz (Num 10485760))
         \<and> mime \<notin> {js ''image/jpeg'', js ''image/png'', js ''application/pdf''}"
  using size_check_passes_iff [OF assms]
  by (auto simp: FileMetadata_new_flat)

lemma type_violation_payload:
  assumes "FileMetadata_new name sz mime owner upAt = Inl (InvalidFileTypeError m ts)"
  shows "m = mime \<and> ts = [js ''image/jpeg'', js ''image/png'', js ''application/pdf'']"
  using assms by (simp add: FileMetadata_new_flat split: if_splits)

text \<open>
  The size NaN is neither at most 0 nor greater than the limit, so \<open>validateFileSize\<close>
  returns on it and a metadata of size NaN is constructed.
\<close>

lemma NaN_size_constructed:
  "FileMetadata_new (js ''photo.jpg'') NaN (js ''image/jpeg'') (js ''user-123'') (TimeValue 0)
     = Inr \<lparr>fileName = js ''photo.jpg'', fileSize = NaN, mimeType = js ''image/jpeg'',
             ownerId = js ''user-123'', uploadedAt = TimeValue 0\<rparr>"
  by (simp add: FileMetadata_new_flat num_le_def num_gt_def js_def js_trim_def isWhiteSpace_def
      js_includes_iff_sublist [symmetric])

text \<open>
  C4. The spec: construction raises the type error, carrying the type and the allow-list,
  exactly when the size is valid (greater than 0 and at most 10,485,760) and the type is
  outside the allow-list, the size error coming first when both rules are violated. The
  code at size NaN with type \<open>text/plain\<close>: the size is not greater than 0, and the type
  error is raised.
\<close>

theorem type_violation_at_NaN_size:
  "FileMetadata_new (js ''a.png'') NaN (js ''text/plain'') (js ''user-123'') (TimeValue 0)
     = Inl (InvalidFileTypeError (js ''text/plain'')
              [js ''image/jpeg'', js ''image/png'', js ''application/pdf''])
   \<and> \<not> num_lt (Num 0) NaN"
  by (simp add: FileMetadata_new_flat num_le_def num_gt_def js_def)

subsection \<open>The name rule\<close>

text \<open>
  On every size but NaN, construction raises \<open>InvalidFileNameError\<close> exactly when the size
  and the type are valid and the name trims to the empty string, or has more than 255 code
  units, or contains \<open>..\<close>, \<open>/\<close> or the null character.
\<close>

lemma name_violation_iff:
  assumes "sz \<noteq> NaN"
  shows "(\<exists>r. FileMetadata_new name sz mime owner upAt = Inl (InvalidFileNameError r))
     \<longleftrightarrow> (num_lt (Num 0) sz \<and> num_le sz (Num 10485760))
         \<and> mime \<in> {js ''image/jpeg'', js ''image/png'', js ''application/pdf''}
         \<and> (js_trim name = [] \<or> 255 < length name
              \<or> sublist (js ''..'') name \<or> 0x2F \<in> set name \<or> 0 \<in> set name)"
  using size_check_passes_iff [OF assms]
  by (auto simp: FileMetadata_new_flat)

text \<open>
  C5. The spec: construction raises the name error exactly when the size and the type are
  valid and the name is empty or white space only, or longer than 255 characters, or
  contains \<open>..\<close>, \<open>/\<close> or a null byte. The code at size NaN with a valid type and the
  empty name: the size is not greater than 0, and the name error is raised.
\<close>

theorem name_violation_at_NaN_size:
  "FileMetadata_new [] NaN (js ''image/png'') (js ''user-123'') (TimeValue 0)
     = Inl (InvalidFileNameError (js ''File name cannot be empty''))
   \<and> \<not> num_lt (Num 0) NaN"
  by (simp add: FileMetadata_new_flat num_le_def num_gt_def js_def js_trim_def)

section \<open>Construction of a FileLocation\<close>

text \<open>
  C6. Construction of a location raises \<open>InvalidFileLocationError\<close> exactly when the
  container trims to the empty string, the path trims to the empty string, the path
  contains \<open>..\<close>, or the path starts with \<open>/\<close>. The checks run in this order, so the
  first rule violated gives the reason; when no rule is violated, construction returns a
  location holding the container and the path as they were passed.
\<close>

theorem FileLocation_construction:
  "FileLocation_new c p =
     (if js_trim c = []
        then Inl (InvalidFileLocationError (js ''Container cannot be empty''))
      else if js_trim p = []
        then Inl (InvalidFileLocationError (js ''Path cannot be empty''))
      else if sublist (js ''..'') p
        then Inl (InvalidFileLocationError
                    (js ''Path cannot contain \"..\" (path traversal attempt)''))
      else if prefix (js ''/'') p
        then Inl (InvalidFileLocationError (js ''Path cannot start with \"/\"''))
      else Inr \<lparr>container = c, path = p\<rparr>)
   \<and> ((\<exists>e. FileLocation_new c p = Inl e) \<longleftrightarrow>
        js_trim c = [] \<or> js_trim p = [] \<or> sublist (js ''..'') p \<or> prefix (js ''/'') p)"
proof -
  have blank: "l = [] \<or> length (js_trim l) = 0 \<longleftrightarrow> js_trim l = []" for l
    by (rule blank_iff)
  have flat: "FileLocation_new c p =
     (if js_trim c = []
        then Inl (InvalidFileLocationError (js ''Container cannot be empty''))
      else if js_trim p = []
        then Inl (InvalidFileLocationError (js ''Path cannot be empty''))
      else if sublist (js ''..'') p
        then Inl (InvalidFileLocationError
                    (js ''Path cannot contain \"..\" (path traversal attempt)''))
      else if prefix (js ''/'') p
        then Inl (InvalidFileLocationError (js ''Path cannot start with \"/\"''))
      else Inr \<lparr>container = c, path = p\<rparr>)"
    unfolding FileLocation_new_def FileLocation_validate_def Let_def blank
    by (simp add: js_includes_iff_sublist js_startsWith_def)
  show ?thesis
    by (rule conjI, rule flat) (simp add: flat)
qed

text \<open>
  A valid location; then one input per reason, each violating the later rules as well
  where it can, so that the reason shows the order.
\<close>

theorem FileLocation_construction_witness:
  "FileLocation_new (js ''my-bucket'') (js ''uploads/user-123/photo.jpg'')
     = Inr \<lparr>container = js ''my-bucket'', path = js ''uploads/user-123/photo.jpg''\<rparr>
   \<and> FileLocation_new (js '' '') (js ''/..'')
     = Inl (InvalidFileLocationError (js ''Container cannot be empty''))
   \<and> FileLocation_new (js ''my-bucket'') []
     = Inl (InvalidFileLocationError (js ''Path cannot be empty''))
   \<and> FileLocation_new (js ''my-bucket'') (js ''/../etc'')
     = Inl (InvalidFileLocationError
              (js ''Path cannot contain \"..\" (path traversal attempt)''))
   \<and> FileLocation_new (js ''my-bucket'') (js ''/etc'')
     = Inl (InvalidFileLocationError (js ''Path cannot start with \"/\"''))"
proof -
  have t: "js_trim (js ''my-bucket'') \<noteq> []" "js_trim (js '' '') = []" "js_trim [] = []"
    "js_trim (js ''uploads/user-123/photo.jpg'') \<noteq> []"
    "js_trim (js ''/../etc'') \<noteq> []" "js_trim (js ''/etc'') \<noteq> []"
    by (simp_all add: js_trim_def js_def isWhiteSpace_def)
  have s: "\<not> sublist (js ''..'') (js ''uploads/user-123/photo.jpg'')"
    "sublist (js ''..'') (js ''/../etc'')" "\<not> sublist (js ''..'') (js ''/etc'')"
    by (simp_all add: js_includes_iff_sublist [symmetric] js_def)
  have p: "\<not> prefix (js ''/'') (js ''uploads/user-123/photo.jpg'')"
    "prefix (js ''/'') (js ''/etc'')"
    by (simp_all add: js_def)
  show ?thesis
    using FileLocation_construction [of "js ''my-bucket''" "js ''uploads/user-123/photo.jpg''"]
      FileLocation_construction [of "js '' ''" "js ''/..''"]
      FileLocation_construction [of "js ''my-bucket''" "[]"]
      FileLocation_construction [of "js ''my-bucket''" "js ''/../etc''"]
      FileLocation_construction [of "js ''my-bucket''" "js ''/etc''"]
    by (simp add: t s p)
qed

text \<open>
  C10. The traversal and leading-slash checks read the path as passed; only the emptiness
  checks trim. The path made of a space and \<open>/secret\<close>, which starts with \<open>/\<close> once
  trimmed, is accepted
  and stored as passed; a container ending in \<open>/\<close> is accepted, and the full path of such
  a location has two \<open>/\<close> in a row.
\<close>

theorem FileLocation_raw_path_checks:
  "FileLocation_new (js ''my-bucket'') (js '' /secret'')
     = Inr \<lparr>container = js ''my-bucket'', path = js '' /secret''\<rparr>
   \<and> js_startsWith (js_trim (js '' /secret'')) (js ''/'')
   \<and> FileLocation_new (js ''my-bucket/'') (js ''photo.jpg'')
     = Inr \<lparr>container = js ''my-bucket/'', path = js ''photo.jpg''\<rparr>
   \<and> getFullPath \<lparr>container = js ''my-bucket/'', path = js ''photo.jpg''\<rparr>
     = js ''my-bucket//photo.jpg''
   \<and> js_includes (js ''my-bucket//photo.jpg'') (js ''//'')"
  by (simp add: FileLocation_new_def FileLocation_validate_def getFullPath_def
      js_startsWith_def js_trim_def isWhiteSpace_def js_def)

section \<open>The serialization view and reconstitution\<close>

text \<open>\<open>toObject\<close> returns a view exactly when the date of the metadata is valid.\<close>

lemma toObject_returns_iff:
  "(\<exists>v. toObject toISOString f = Inr v) \<longleftrightarrow> uploadedAt (metadata f) \<noteq> InvalidDate"
  by (cases "uploadedAt (metadata f)") (simp_all add: toObject_def)

text \<open>
  Given a view \<open>v\<close> of \<open>f\<close> and the status \<open>s\<close> whose value is the status string of
  \<open>v\<close>, the entity reconstituted from the id of \<open>v\<close>, the metadata and location of \<open>f\<close>,
  and \<open>s\<close> is equal to \<open>f\<close> by \<open>equals\<close> and has the status of \<open>f\<close>.
\<close>

lemma roundtrip_of_view:
  assumes "toObject toISOString f = Inr v"
    and "FileStatus_value s = obj_status v"
  shows "equals f (Obj (reconstitute (obj_id v) (metadata f) (location f) s)) = Inr True
     \<and> status (reconstitute (obj_id v) (metadata f) (location f) s) = status f"
proof -
  from assms(1) obtain t where "uploadedAt (metadata f) = TimeValue t"
    by (cases "uploadedAt (metadata f)") (simp_all add: toObject_def)
  with assms(1) have i: "obj_id v = file_id f"
    and st: "obj_status v = FileStatus_value (status f)"
    by (auto simp: toObject_def)
  from assms(2) st have "s = status f"
    by (simp add: FileStatus_value_inj)
  with i show ?thesis
    by (simp add: reconstitute_def equals_def)
qed

text \<open>
  C7, as the spec states it, is about every File. The constructor of the metadata does not
  look at the date, so a metadata with the invalid date is constructed, and on a File that
  holds it \<open>toObject\<close> raises \<open>RangeError\<close>: there is no view to take an id and a status
  from, and the round trip yields no entity.
\<close>

theorem roundtrip_invalid_date_counterexample:
  "FileMetadata_new (js ''photo.jpg'') (Num 1024000) (js ''image/jpeg'') (js ''user-123'')
       InvalidDate
     = Inr (photo_metadata\<lparr>uploadedAt := InvalidDate\<rparr>)
   \<and> toObject epoch_toISOString
         (create (js ''id-1'') (photo_metadata\<lparr>uploadedAt := InvalidDate\<rparr>) photo_location)
     = Inl RangeError"
proof -
  have "FileMetadata_new (js ''photo.jpg'') (Num 1024000) (js ''image/jpeg'') (js ''user-123'')
       InvalidDate
     = Inr (photo_metadata\<lparr>uploadedAt := InvalidDate\<rparr>)"
    by (simp add: FileMetadata_new_flat photo_metadata_def js_def js_trim_def isWhiteSpace_def
        js_includes_iff_sublist [symmetric])
  moreover have "toObject epoch_toISOString
         (create (js ''id-1'') (photo_metadata\<lparr>uploadedAt := InvalidDate\<rparr>) photo_location)
     = Inl RangeError"
    by (simp add: toObject_def create_def)
  ultimately show ?thesis by (rule conjI)
qed

text \<open>
  C7, amended. For every File \<open>f\<close> whose metadata holds a valid date, \<open>toObject\<close> returns
  a view \<open>v\<close>, the status string of \<open>v\<close> is the value of the status of \<open>f\<close>, and for the
  status \<open>s\<close> with that value, the entity reconstituted from the id of \<open>v\<close>, the metadata
  and location of \<open>f\<close>, and \<open>s\<close> is equal to \<open>f\<close> by \<open>equals\<close>, and its status is the
  status of \<open>f\<close>.
\<close>

theorem reconstitute_roundtrip:
  assumes "uploadedAt (metadata f) \<noteq> InvalidDate"
  shows "\<exists>v. toObject toISOString f = Inr v
     \<and> FileStatus_value (status f) = obj_status v
     \<and> (\<forall>s. FileStatus_value s = obj_status v \<longrightarrow>
           equals f (Obj (reconstitute (obj_id v) (metadata f) (location f) s)) = Inr True
           \<and> status (reconstitute (obj_id v) (metadata f) (location f) s) = status f)"
proof -
  from assms obtain v where v: "toObject toISOString f = Inr v"
    using toObject_returns_iff [of toISOString f] by blast
  from assms v have "FileStatus_value (status f) = obj_status v"
    by (cases "uploadedAt (metadata f)") (auto simp: toObject_def)
  with v roundtrip_of_view [OF v] show ?thesis
    by blast
qed

text \<open>An uploaded file with a valid date: its view exists and the round trip holds.\<close>

theorem reconstitute_roundtrip_witness:
  "uploadedAt (metadata (reconstitute (js ''id-1'') photo_metadata photo_location UPLOADED))
     \<noteq> InvalidDate
   \<and> (\<exists>v. toObject epoch_toISOString
            (reconstitute (js ''id-1'') photo_metadata photo_location UPLOADED) = Inr v
       \<and> FileStatus_value UPLOADED = obj_status v
       \<and> equals (reconstitute (js ''id-1'') photo_metadata photo_location UPLOADED)
            (Obj (reconstitute (obj_id v) photo_metadata photo_location UPLOADED)) = Inr True
       \<and> status (reconstitute (obj_id v) photo_metadata photo_location UPLOADED) = UPLOADED)"
proof -
  let ?f = "reconstitute (js ''id-1'') photo_metadata photo_location UPLOADED"
  have f: "metadata ?f = photo_metadata" "location ?f = photo_location" "status ?f = UPLOADED"
    by (simp_all add: reconstitute_def)
  have d: "uploadedAt (metadata ?f) \<noteq> InvalidDate"
    by (simp add: reconstitute_def photo_metadata_def)
  from reconstitute_roundtrip [OF d, of epoch_toISOString] d show ?thesis
    unfolding f by blast
qed

end
